theory Spec2Isabelle
  imports Complex_Main "HOL-Library.Sublist"
begin

section \<open>JavaScript values\<close>

text \<open>
  The program is \<^verbatim>\<open>src/index.js\<close>, which holds two variants of the same Express
  application: variant A (lines 1 to 238) keeps access tokens in the map
  \<^verbatim>\<open>storeTokens\<close>, variant B (lines 239 to 449) keeps nothing. Both are embedded
  below, handler by handler, with the suffixes \<open>_A\<close> and \<open>_B\<close>.

  Strings are sequences of UTF-8 bytes (\<^typ>\<open>string\<close>). A parsed JSON document is a
  \<^typ>\<open>string\<close>-keyed tree; a number is the rational its decimal text denotes. The
  JavaScript value \<^verbatim>\<open>undefined\<close> is \<^term>\<open>None\<close>.
\<close>

datatype json =
    JNull
  | JBool bool
  | JNum rat
  | JStr string
  | JArr "json list"
  | JObj "(string \<times> json) list"

type_synonym jsval = "json option"

datatype js_error =
    Error jsval  \<comment> \<open>\<^verbatim>\<open>new Error(x)\<close>\<close>
  | TypeError    \<comment> \<open>property read on \<^verbatim>\<open>null\<close>, call of a non-function\<close>
  | FetchError   \<comment> \<open>\<^verbatim>\<open>fetch\<close> rejected\<close>
  | SyntaxError  \<comment> \<open>\<^verbatim>\<open>res.json()\<close> rejected\<close>
  | BadRequest   \<comment> \<open>the body parser's error, which carries the status 400\<close>

text \<open>The operator \<^verbatim>\<open>!\<close>, and \<^verbatim>\<open>a || b\<close>.\<close>

fun js_not :: "jsval \<Rightarrow> bool" where
  "js_not None = True"
| "js_not (Some JNull) = True"
| "js_not (Some (JBool b)) = (b = False)"
| "js_not (Some (JNum n)) = (n = 0)"
| "js_not (Some (JStr s)) = (s = [])"
| "js_not (Some (JArr xs)) = False"
| "js_not (Some (JObj kvs)) = False"

definition js_or :: "jsval \<Rightarrow> jsval \<Rightarrow> jsval" where
  "js_or a b = (if js_not a then b else a)"

text \<open>
  A query parameter or an environment variable is a string or \<^verbatim>\<open>undefined\<close>.
  \<open>to_string\<close> is what a template literal and \<^verbatim>\<open>encodeURIComponent\<close> make of it.
\<close>

definition str :: "string option \<Rightarrow> jsval" where
  "str x = map_option JStr x"

definition to_string :: "string option \<Rightarrow> string" where
  "to_string x = (case x of None \<Rightarrow> ''undefined'' | Some s \<Rightarrow> s)"

text \<open>
  \<^verbatim>\<open>x.k\<close> and \<^verbatim>\<open>x?.k\<close> for the keys the program reads (\<^verbatim>\<open>error\<close>,
  \<^verbatim>\<open>access_token\<close>, \<^verbatim>\<open>context\<close>, \<^verbatim>\<open>store_hash\<close>): none of them is a built-in
  property, so only an object can have one.
\<close>

fun get_prop :: "json \<Rightarrow> string \<Rightarrow> js_error + jsval" where
  "get_prop JNull k = Inl TypeError"
| "get_prop (JObj kvs) k = Inr (map_of kvs k)"
| "get_prop (JBool b) k = Inr None"
| "get_prop (JNum n) k = Inr None"
| "get_prop (JStr s) k = Inr None"
| "get_prop (JArr xs) k = Inr None"

fun opt_prop :: "jsval \<Rightarrow> string \<Rightarrow> jsval" where
  "opt_prop None k = None"
| "opt_prop (Some JNull) k = None"
| "opt_prop (Some (JObj kvs)) k = map_of kvs k"
| "opt_prop (Some (JBool b)) k = None"
| "opt_prop (Some (JNum n)) k = None"
| "opt_prop (Some (JStr s)) k = None"
| "opt_prop (Some (JArr xs)) k = None"

text \<open>\<^verbatim>\<open>JSON.stringify\<close> of an object literal leaves out the undefined members.\<close>

definition stringify_object :: "(string \<times> jsval) list \<Rightarrow> json" where
  "stringify_object kvs = JObj (List.map_filter (\<lambda>(k, v). map_option (Pair k) v) kvs)"

text \<open>
  The conversion to a string that a template literal and \<^verbatim>\<open>new Error(x)\<close> apply fails
  with a TypeError on a value that has none: a parsed object with a member
  \<^verbatim>\<open>toString\<close> of its own (a parsed member is never a function, and \<^verbatim>\<open>valueOf\<close>
  gives the object back), and an array with such an element (\<^verbatim>\<open>join\<close> converts every
  element but \<^verbatim>\<open>null\<close>).
\<close>

fun no_string_conversion :: "json \<Rightarrow> bool" where
  "no_string_conversion JNull = False"
| "no_string_conversion (JBool b) = False"
| "no_string_conversion (JNum n) = False"
| "no_string_conversion (JStr s) = False"
| "no_string_conversion (JArr xs) = list_ex no_string_conversion xs"
| "no_string_conversion (JObj kvs) = (map_of kvs ''toString'' \<noteq> None)"

definition ToString_throws :: "jsval \<Rightarrow> bool" where
  "ToString_throws v = (case v of None \<Rightarrow> False | Some j \<Rightarrow> no_string_conversion j)"

section \<open>String operations\<close>

text \<open>
  \<^verbatim>\<open>s.replace(pat, rep)\<close> with a string pattern: the first occurrence of \<open>pat\<close>, wherever
  it is, is replaced. (The program's replacement is the empty string, so the \<^verbatim>\<open>$\<close>
  patterns of a replacement play no part.)
\<close>

fun js_replace :: "string \<Rightarrow> string \<Rightarrow> string \<Rightarrow> string" where
  "js_replace pat rep [] = (if pat = [] then rep else [])"
| "js_replace pat rep (c # cs) =
     (if prefix pat (c # cs) then rep @ drop (length pat) (c # cs)
      else c # js_replace pat rep cs)"

text \<open>
  \<^verbatim>\<open>s.trim()\<close> removes white space and line terminators at both ends: U+0009 to
  U+000D, U+0020, U+00A0, U+1680, U+2000 to U+200A, U+2028, U+2029, U+202F, U+205F,
  U+3000 and U+FEFF, here in UTF-8.
\<close>

definition white_space :: "string list" where
  "white_space =
     [[CHR 0x09], [CHR 0x0A], [CHR 0x0B], [CHR 0x0C], [CHR 0x0D], [CHR 0x20],
      [CHR 0xC2, CHR 0xA0],
      [CHR 0xE1, CHR 0x9A, CHR 0x80],
      [CHR 0xE2, CHR 0x80, CHR 0x80], [CHR 0xE2, CHR 0x80, CHR 0x81],
      [CHR 0xE2, CHR 0x80, CHR 0x82], [CHR 0xE2, CHR 0x80, CHR 0x83],
      [CHR 0xE2, CHR 0x80, CHR 0x84], [CHR 0xE2, CHR 0x80, CHR 0x85],
      [CHR 0xE2, CHR 0x80, CHR 0x86], [CHR 0xE2, CHR 0x80, CHR 0x87],
      [CHR 0xE2, CHR 0x80, CHR 0x88], [CHR 0xE2, CHR 0x80, CHR 0x89],
      [CHR 0xE2, CHR 0x80, CHR 0x8A],
      [CHR 0xE2, CHR 0x80, CHR 0xA8], [CHR 0xE2, CHR 0x80, CHR 0xA9],
      [CHR 0xE2, CHR 0x80, CHR 0xAF],
      [CHR 0xE2, CHR 0x81, CHR 0x9F],
      [CHR 0xE3, CHR 0x80, CHR 0x80],
      [CHR 0xEF, CHR 0xBB, CHR 0xBF]]"

function strip_leading :: "string list \<Rightarrow> string \<Rightarrow> string" where
  "strip_leading ws s =
     (case find (\<lambda>w. w \<noteq> [] \<and> prefix w s) ws of
        None \<Rightarrow> s
      | Some w \<Rightarrow> strip_leading ws (drop (length w) s))"
  by pat_completeness auto
termination
proof (relation "measure (\<lambda>(ws, s). length s)")
  show "wf (measure (\<lambda>(ws, s). length s))"
    by simp
next
  fix ws :: "string list" and s w :: string
  assume "find (\<lambda>w. w \<noteq> [] \<and> prefix w s) ws = Some w"
  then have "w \<noteq> []" and "prefix w s"
    by (auto simp: find_Some_iff)
  then have "s \<noteq> []"
    by auto
  with \<open>w \<noteq> []\<close> show "((ws, drop (length w) s), (ws, s)) \<in> measure (\<lambda>(ws, s). length s)"
    by simp
qed

declare strip_leading.simps [simp del]

definition trimStart :: "string \<Rightarrow> string" where
  "trimStart s = strip_leading white_space s"

definition trimEnd :: "string \<Rightarrow> string" where
  "trimEnd s = rev (strip_leading (map rev white_space) (rev s))"

definition trim :: "string \<Rightarrow> string" where
  "trim s = trimEnd (trimStart s)"

text \<open>
  \<^verbatim>\<open>encodeURIComponent\<close>: letters, digits and \<^verbatim>\<open>- _ . ! ~ * ' ( )\<close> stay, every other
  byte of the UTF-8 text becomes \<^verbatim>\<open>%XX\<close> in upper-case hexadecimal.
\<close>

definition uri_unreserved :: "char \<Rightarrow> bool" where
  "uri_unreserved c =
     (let n = (of_char c :: nat) in
        (65 \<le> n \<and> n \<le> 90) \<or> (97 \<le> n \<and> n \<le> 122) \<or> (48 \<le> n \<and> n \<le> 57)
        \<or> c \<in> set ''-_.!~*()'' \<or> n = 39)"

definition hex_digit :: "nat \<Rightarrow> char" where
  "hex_digit n = ''0123456789ABCDEF'' ! (n mod 16)"

definition pct_encode :: "char \<Rightarrow> string" where
  "pct_encode c = [CHR ''%'', hex_digit (of_char c div 16), hex_digit (of_char c)]"

definition encodeURIComponent :: "string \<Rightarrow> string" where
  "encodeURIComponent s =
     concat (map (\<lambda>c. if uri_unreserved c then [c] else pct_encode c) s)"

section \<open>Configuration, requests, responses, state\<close>

text \<open>
  The three environment variables the handlers read (\<^verbatim>\<open>process.env.BC_CLIENT_ID\<close>,
  \<^verbatim>\<open>BC_CLIENT_SECRET\<close>, \<^verbatim>\<open>APP_URL\<close>), each a string or unset.
\<close>

record env =
  CLIENT_ID :: "string option"
  CLIENT_SECRET :: "string option"
  APP_URL :: "string option"

text \<open>
  A request as the handlers see it, after Express has parsed it: \<^verbatim>\<open>req.method\<close>,
  \<^verbatim>\<open>req.headers\<close>, \<^verbatim>\<open>req.query\<close> and \<^verbatim>\<open>req.body\<close> (the parsed JSON body, or
  \<^verbatim>\<open>undefined\<close>). A query parameter is a string or is absent; parameters that the
  query parser would turn into arrays or objects are not modelled.
\<close>

record request =
  req_method :: string
  req_headers :: "(string \<times> string) list"
  req_query :: "string \<rightharpoonup> string"
  req_body :: jsval

text \<open>
  What a handler answers: \<^verbatim>\<open>res.status(n).send(text)\<close>, \<^verbatim>\<open>res.status(n).json(v)\<close>
  and \<^verbatim>\<open>res.redirect(url)\<close>. Express answers 200 where the handler sets no status,
  and 302 for a redirect. \<open>ErrorPage\<close> is the answer of Express's own error handler,
  with its status; its body depends on the environment.
\<close>

datatype http_response =
    Send nat string
  | SendJson nat json
  | Redirect nat string
  | ErrorPage nat

text \<open>
  An error that no handler catches reaches Express's error handler, which answers with
  the status the error carries, and with 500 when it carries none. (What that handler
  itself prints is not part of the console below.)
\<close>

definition finalhandler :: "js_error \<Rightarrow> http_response" where
  "finalhandler err = (case err of BadRequest \<Rightarrow> ErrorPage 400 | _ \<Rightarrow> ErrorPage 500)"

text \<open>
  \<^verbatim>\<open>app.use(express.json())\<close> (lines 9 and 247), with its default options: of a request
  whose body it reads as JSON, here the document \<open>doc\<close> that the body text denotes, the
  parser is strict and passes on an object or an array as \<^verbatim>\<open>req.body\<close>; any other
  document is refused with the status 400 before a handler runs. (Requests whose body the
  parser does not read, and its size limit, are not modelled.)
\<close>

definition express_json :: "json \<Rightarrow> js_error + jsval" where
  "express_json doc =
     (case doc of
        JObj kvs \<Rightarrow> Inr (Some doc)
      | JArr xs \<Rightarrow> Inr (Some doc)
      | _ \<Rightarrow> Inl BadRequest)"

text \<open>The outbound calls: what is handed to \<^verbatim>\<open>fetch\<close>, and what comes back.\<close>

record fetch_request =
  url :: string
  fetch_method :: string
  fetch_headers :: "(string \<times> jsval) list"
  fetch_body :: json

record fetch_response =
  status :: nat
  json_body :: "json option"  \<comment> \<open>\<^term>\<open>None\<close>: the body is not JSON, \<^verbatim>\<open>res.json()\<close> rejects\<close>

datatype fetch_result = Rejected | Resolved fetch_response

type_synonym network = "fetch_request \<Rightarrow> fetch_result"

definition ok :: "fetch_response \<Rightarrow> bool" where
  "ok r = (200 \<le> status r \<and> status r < 300)"

text \<open>The console: one entry per call, with the level and the arguments.\<close>

datatype level = LOG | WARN | ERROR

datatype logarg =
    LStr string
  | LVal jsval
  | LBool bool
  | LNum nat
  | LObj "(string \<times> logarg) list"  \<comment> \<open>an object literal\<close>
  | LTemplate "logarg list"         \<comment> \<open>a template literal\<close>
  | LPretty jsval                   \<comment> \<open>\<^verbatim>\<open>JSON.stringify(v, null, 2)\<close>\<close>
  | LMessage js_error               \<comment> \<open>\<^verbatim>\<open>err.message\<close>\<close>
  | LErr js_error

record server_state =
  storeTokens :: "string \<rightharpoonup> jsval"
  console :: "(level \<times> logarg list) list"

definition emit :: "level \<Rightarrow> logarg list \<Rightarrow> server_state \<Rightarrow> server_state" where
  "emit lv args st = st\<lparr>console := console st @ [(lv, args)]\<rparr>"

text \<open>
  \<^verbatim>\<open>storeTokens.delete(k)\<close>: every key the program stores is a string, so a key that
  is not a string matches none.
\<close>

definition map_delete :: "jsval \<Rightarrow> (string \<rightharpoonup> jsval) \<Rightarrow> (string \<rightharpoonup> jsval)" where
  "map_delete k m = (case k of Some (JStr s) \<Rightarrow> m(s := None) | _ \<Rightarrow> m)"

text \<open>The symbols of the messages, in UTF-8.\<close>

definition check_mark :: string where
  "check_mark = [CHR 0xE2, CHR 0x9C, CHR 0x85]"

definition cross_mark :: string where
  "cross_mark = [CHR 0xE2, CHR 0x9D, CHR 0x8C]"

definition package_sign :: string where
  "package_sign = [CHR 0xF0, CHR 0x9F, CHR 0x93, CHR 0xA6]"

definition envelope_sign :: string where
  "envelope_sign = [CHR 0xF0, CHR 0x9F, CHR 0x93, CHR 0xA8]"

definition warning_sign :: string where
  "warning_sign = [CHR 0xE2, CHR 0x9A, CHR 0xA0, CHR 0xEF, CHR 0xB8, CHR 0x8F]"

definition wastebasket_sign :: string where
  "wastebasket_sign = [CHR 0xF0, CHR 0x9F, CHR 0x97, CHR 0x91, CHR 0xEF, CHR 0xB8, CHR 0x8F]"

definition lock_sign :: string where
  "lock_sign = [CHR 0xF0, CHR 0x9F, CHR 0x94, CHR 0x90]"

definition back_sign :: string where
  "back_sign = [CHR 0xF0, CHR 0x9F, CHR 0x94, CHR 0x99]"

definition key_sign :: string where
  "key_sign = [CHR 0xF0, CHR 0x9F, CHR 0x94, CHR 0x91]"

definition link_sign :: string where
  "link_sign = [CHR 0xF0, CHR 0x9F, CHR 0x94, CHR 0x97]"

definition nl :: string where
  "nl = [CHR 0x0A]"

definition dq :: string where
  "dq = [CHR 0x22]"

section \<open>Variant A (lines 1 to 238)\<close>

subsection \<open>\<^verbatim>\<open>GET /api/install\<close> (lines 25 to 49)\<close>

definition authUrl_A :: "env \<Rightarrow> string option \<Rightarrow> string option \<Rightarrow> string" where
  "authUrl_A e context scope =
     (let redirectUri = to_string (APP_URL e) @ ''/api/auth/callback''
      in ''https://login.bigcommerce.com/oauth2/authorize?client_id='' @ to_string (CLIENT_ID e)
         @ ''&scope='' @ encodeURIComponent (to_string scope)
         @ ''&redirect_uri='' @ encodeURIComponent redirectUri
         @ ''&response_type=code&context='' @ encodeURIComponent (to_string context))"

definition api_install_A :: "env \<Rightarrow> request \<Rightarrow> server_state \<Rightarrow> http_response \<times> server_state" where
  "api_install_A e req st =
     (let context = req_query req ''context''; scope = req_query req ''scope''
      in if js_not (str (CLIENT_ID e)) \<or> js_not (str (APP_URL e)) then
           (Send 500 ''Server not configured correctly (CLIENT_ID / APP_URL missing).'',
            emit ERROR [LStr ''Missing CLIENT_ID or APP_URL in env vars''] st)
         else if js_not (str context) \<or> js_not (str scope) then
           (Send 400 ''Missing context or scope from BigCommerce.'', st)
         else
           (let authUrl = authUrl_A e context scope
            in (Redirect 302 authUrl,
                emit LOG [LStr ''Redirecting to BigCommerce OAuth:'', LStr authUrl] st)))"

subsection \<open>\<^verbatim>\<open>registerMetadata\<close> (lines 159 to 193)\<close>

definition metadata_payload :: json where
  "metadata_payload =
     JObj [(''data'', JArr
       [JObj [(''key'', JStr ''shipping_connection''), (''value'', JStr ''/v1/shipping/connection'')],
        JObj [(''key'', JStr ''shipping_rates''), (''value'', JStr ''/v1/shipping/rates'')]])]"

definition metadata_request :: "string \<Rightarrow> jsval \<Rightarrow> fetch_request" where
  "metadata_request storeHash accessToken =
     \<lparr>url = ''https://api.bigcommerce.com/stores/'' @ storeHash @ ''/v3/app/metadata'',
      fetch_method = ''POST'',
      fetch_headers = [(''X-Auth-Token'', accessToken),
                       (''Content-Type'', Some (JStr ''application/json'')),
                       (''Accept'', Some (JStr ''application/json''))],
      fetch_body = metadata_payload\<rparr>"

definition registerMetadata ::
  "network \<Rightarrow> string \<Rightarrow> jsval \<Rightarrow> server_state \<Rightarrow> (js_error + unit) \<times> server_state" where
  "registerMetadata net storeHash accessToken st =
     (let rq = metadata_request storeHash accessToken;
          st1 = emit LOG [LStr (envelope_sign @ '' Registering metadata at:''), LStr (url rq),
                          LVal (Some metadata_payload)] st
      in case net rq of
           Rejected \<Rightarrow> (Inl FetchError, st1)
         | Resolved res \<Rightarrow>
             (let (data, st2) =
                    (case json_body res of
                       Some d \<Rightarrow> (d, st1)
                     | None \<Rightarrow>
                         (JNull,
                          emit WARN [LStr (warning_sign @ '' Could not parse metadata response JSON'')] st1))
              in if \<not> ok res then
                   (Inr (), emit ERROR [LStr (cross_mark @ '' Metadata registration failed:''),
                                        LNum (status res), LVal (Some data)] st2)
                 else
                   (Inr (), emit LOG [LStr (check_mark @ '' Metadata registered successfully:''),
                                      LVal (Some data)] st2)))"

subsection \<open>\<^verbatim>\<open>GET /api/auth/callback\<close> (lines 52 to 101)\<close>

definition storeHash_A :: "string \<Rightarrow> string" where
  "storeHash_A context = js_replace ''stores/'' [] context"

definition token_request :: "env \<Rightarrow> request \<Rightarrow> fetch_request" where
  "token_request e req =
     \<lparr>url = ''https://login.bigcommerce.com/oauth2/token'',
      fetch_method = ''POST'',
      fetch_headers = [(''Content-Type'', Some (JStr ''application/json''))],
      fetch_body = stringify_object
        [(''client_id'', str (CLIENT_ID e)),
         (''client_secret'', str (CLIENT_SECRET e)),
         (''redirect_uri'', Some (JStr (to_string (APP_URL e) @ ''/api/auth/callback''))),
         (''grant_type'', Some (JStr ''authorization_code'')),
         (''code'', str (req_query req ''code'')),
         (''scope'', str (req_query req ''scope'')),
         (''context'', str (req_query req ''context''))]\<rparr>"

definition installed_page_A :: string where
  "installed_page_A =
     nl @ ''      <h2>'' @ check_mark @ '' MyRover GTA Carrier installed successfully</h2>''
     @ nl @ ''      <p>You can close this window and return to your BigCommerce admin.</p>''
     @ nl @ ''    ''"

definition failed_page_A :: string where
  "failed_page_A = ''OAuth callback failed. Check server logs for more details.''"

text \<open>The body of the \<^verbatim>\<open>try\<close> block: \<^term>\<open>Inl\<close> is a throw, \<^term>\<open>Inr\<close> the response sent.\<close>

definition callback_try_A ::
  "env \<Rightarrow> network \<Rightarrow> request \<Rightarrow> server_state \<Rightarrow> (js_error + http_response) \<times> server_state" where
  "callback_try_A e net req st =
     (let code = req_query req ''code''; context = req_query req ''context''
      in if js_not (str code) \<or> js_not (str context) then
           (Inl (Error (Some (JStr ''Missing code or context in OAuth callback.''))), st)
         else
           (case context of
              None \<Rightarrow> (Inl TypeError, st)
            | Some ctx \<Rightarrow>
                (let storeHash = storeHash_A ctx
                 in case net (token_request e req) of
                      Rejected \<Rightarrow> (Inl FetchError, st)
                    | Resolved tokenRes \<Rightarrow>
                        (case json_body tokenRes of
                           None \<Rightarrow> (Inl SyntaxError, st)
                         | Some data \<Rightarrow>
                             if \<not> ok tokenRes then
                               (let st1 = emit ERROR [LStr ''OAuth token exchange failed:'',
                                                      LVal (Some data)] st
                                in case get_prop data ''error'' of
                                     Inl err \<Rightarrow> (Inl err, st1)
                                   | Inr msg \<Rightarrow>
                                       (let message = js_or msg (Some (JStr ''Token exchange failed''))
                                        in if ToString_throws message then (Inl TypeError, st1)
                                           else (Inl (Error message), st1)))
                             else
                               (case get_prop data ''access_token'' of
                                  Inl err \<Rightarrow> (Inl err, st)
                                | Inr accessToken \<Rightarrow>
                                    (let st1 = st\<lparr>storeTokens :=
                                                     (storeTokens st)(storeHash \<mapsto> accessToken)\<rparr>;
                                         st2 = emit LOG [LTemplate
                                                 [LStr (check_mark @ '' Access token stored for store: ''),
                                                  LStr storeHash]] st1
                                     in case registerMetadata net storeHash accessToken st2 of
                                          (Inl err, st3) \<Rightarrow> (Inl err, st3)
                                        | (Inr u, st3) \<Rightarrow>
                                            (Inr (Send 200 installed_page_A), st3)))))))"

definition api_auth_callback_A ::
  "env \<Rightarrow> network \<Rightarrow> request \<Rightarrow> server_state \<Rightarrow> http_response \<times> server_state" where
  "api_auth_callback_A e net req st =
     (case callback_try_A e net req st of
        (Inr res, st1) \<Rightarrow> (res, st1)
      | (Inl err, st1) \<Rightarrow>
          (Send 400 failed_page_A,
           emit ERROR [LStr (cross_mark @ '' OAuth callback error:''), LMessage err] st1))"

subsection \<open>\<^verbatim>\<open>/v1/shipping/connection\<close> (lines 107 to 120), \<^verbatim>\<open>POST /v1/shipping/rates\<close> (lines 126 to 153)\<close>

definition connection_verified :: json where
  "connection_verified =
     JObj [(''data'', JObj [(''status'', JStr ''OK''),
                            (''message'', JStr ''MyRover GTA Carrier connection verified'')])]"

definition shipping_connection_A :: "request \<Rightarrow> server_state \<Rightarrow> http_response \<times> server_state" where
  "shipping_connection_A req st =
     (SendJson 200 connection_verified,
      emit LOG [LStr (check_mark @ '' /v1/shipping/connection HIT''),
                LObj [(''method'', LStr (req_method req)),
                   (''headers'', LObj (map (\<lambda>(k, v). (k, LStr v)) (req_headers req)))]] st)"

definition carrier_quote :: "string \<Rightarrow> string \<Rightarrow> rat \<Rightarrow> json" where
  "carrier_quote code display_name cost =
     JObj [(''carrier_quote'',
            JObj [(''code'', JStr code), (''display_name'', JStr display_name), (''cost'', JNum cost)])]"

definition rates_A :: json where
  "rates_A =
     JObj [(''data'', JArr
       [carrier_quote ''myrover_same_day_gta'' ''MyRover Same-Day Courier (GTA)'' (1995 / 100),
        carrier_quote ''myrover_next_day_gta'' ''MyRover Next-Day Courier (GTA)'' (1495 / 100)])]"

definition shipping_rates_A :: "request \<Rightarrow> server_state \<Rightarrow> http_response \<times> server_state" where
  "shipping_rates_A req st =
     (let body = js_or (req_body req) (Some (JObj []));
          st1 = emit LOG [LStr (package_sign @ '' /v1/shipping/rates request:''), LPretty body] st;
          response = rates_A;
          st2 = emit LOG [LStr (package_sign @ '' Returning rates:''), LVal (Some response)] st1
      in (SendJson 200 response, st2))"

subsection \<open>\<^verbatim>\<open>POST /api/uninstall\<close> (lines 216 to 223)\<close>

definition success_true :: json where
  "success_true = JObj [(''success'', JBool True)]"

text \<open>
  The template literal of line 220 converts \<^verbatim>\<open>storeHash\<close> to a string before anything
  is printed; where that fails the handler throws, after the deletion and before line 222.
  \<^term>\<open>Inl\<close> is that uncaught throw.
\<close>

definition api_uninstall_A ::
  "request \<Rightarrow> server_state \<Rightarrow> (js_error + http_response) \<times> server_state" where
  "api_uninstall_A req st =
     (let storeHash = opt_prop (req_body req) ''store_hash''
      in if js_not storeHash then (Inr (SendJson 200 success_true), st)
         else
           (let st1 = st\<lparr>storeTokens := map_delete storeHash (storeTokens st)\<rparr>
            in if ToString_throws storeHash then (Inl TypeError, st1)
               else
                 (Inr (SendJson 200 success_true),
                  emit LOG [LTemplate [LStr (wastebasket_sign @ '' Uninstalled from store ''),
                                       LVal storeHash]] st1)))"

subsection \<open>The routes with a JSON body, behind the body parser\<close>


definition post_api_uninstall_A ::
  "request \<Rightarrow> json \<Rightarrow> server_state \<Rightarrow> http_response \<times> server_state" where
  "post_api_uninstall_A req doc st =
     (case express_json doc of
        Inl err \<Rightarrow> (finalhandler err, st)
      | Inr body \<Rightarrow>
          (case api_uninstall_A (req\<lparr>req_body := body\<rparr>) st of
             (Inl err, st1) \<Rightarrow> (finalhandler err, st1)
           | (Inr res, st1) \<Rightarrow> (res, st1)))"

section \<open>Variant B (lines 239 to 449)\<close>

text \<open>
  Variant B declares no token map. Its handlers are given the same state as variant A's,
  so that the two can be compared; they write to the console only.
\<close>

subsection \<open>\<^verbatim>\<open>GET /api/install\<close> (lines 264 to 284)\<close>

definition authorizeUrl_B :: "env \<Rightarrow> string option \<Rightarrow> string option \<Rightarrow> string" where
  "authorizeUrl_B e context scope =
     (let redirectUri = to_string (APP_URL e) @ ''/api/auth/callback''
      in ''https://login.bigcommerce.com/oauth2/authorize?client_id=''
         @ encodeURIComponent (to_string (CLIENT_ID e))
         @ ''&scope='' @ encodeURIComponent (to_string scope)
         @ ''&context='' @ encodeURIComponent (to_string context)
         @ ''&redirect_uri='' @ encodeURIComponent redirectUri
         @ ''&response_type=code'')"

definition api_install_B :: "env \<Rightarrow> request \<Rightarrow> server_state \<Rightarrow> http_response \<times> server_state" where
  "api_install_B e req st =
     (let context = req_query req ''context''; scope = req_query req ''scope''
      in if js_not (str context) \<or> js_not (str scope) then
           (Send 400 ''Missing context or scope'', st)
         else
           (let authorizeUrl = authorizeUrl_B e context scope
            in (Redirect 302 authorizeUrl,
                emit LOG [LStr (lock_sign @ '' Redirecting to BigCommerce OAuth authorize:''),
                          LStr authorizeUrl] st)))"

subsection \<open>\<^verbatim>\<open>GET /api/auth/callback\<close> (lines 290 to 362)\<close>

definition storeHash_B :: "string \<Rightarrow> string" where
  "storeHash_B context = trim (js_replace ''stores/'' [] context)"

definition installed_page_B :: "string \<Rightarrow> string" where
  "installed_page_B storeHash =
     nl @ ''      <html>''
     @ nl @ ''        <body style='' @ dq @ ''font-family: Arial; text-align:center; margin-top:50px;''
          @ dq @ ''>''
     @ nl @ ''          <h2>'' @ check_mark @ '' MyRover Carrier App Installed</h2>''
     @ nl @ ''          <p>Store: <strong>'' @ (if storeHash = [] then ''unknown'' else storeHash)
          @ ''</strong></p>''
     @ nl @ ''          <p>You can now close this window and return to your BigCommerce admin.</p>''
     @ nl @ ''        </body>''
     @ nl @ ''      </html>''
     @ nl @ ''    ''"

definition callback_try_B ::
  "env \<Rightarrow> network \<Rightarrow> request \<Rightarrow> server_state \<Rightarrow> (js_error + http_response) \<times> server_state" where
  "callback_try_B e net req st =
     (let code = req_query req ''code''; context = req_query req ''context'';
          scope = req_query req ''scope'';
          st1 = emit LOG [LStr (back_sign @ '' OAuth callback hit with:''),
                          LObj [(''code'', LVal (str code)), (''context'', LVal (str context)),
                                (''scope'', LVal (str scope))]] st
      in if js_not (str code) \<or> js_not (str context) then
           (Inr (Send 400 ''OAuth callback failed: missing code or context''),
            emit ERROR [LStr (cross_mark @ '' Missing code or context from BigCommerce'')] st1)
         else
           (let redirectUri = to_string (APP_URL e) @ ''/api/auth/callback'';
                tokenUrl = ''https://login.bigcommerce.com/oauth2/token'';
                st2 = emit LOG [LStr (lock_sign @ '' Exchanging code for token at:''),
                                LStr tokenUrl] st1;
                st3 = emit LOG [LStr (lock_sign @ '' Token request body (without secrets):''),
                                LObj [(''redirect_uri'', LStr redirectUri),
                                      (''grant_type'', LStr ''authorization_code''),
                                      (''code'', LBool (\<not> js_not (str code))),
                                      (''scope'', LVal (str scope)),
                                      (''context'', LVal (str context))]] st2
            in case net (token_request e req) of
                 Rejected \<Rightarrow> (Inl FetchError, st3)
               | Resolved tokenRes \<Rightarrow>
                   (let data = (case json_body tokenRes of None \<Rightarrow> JObj [] | Some d \<Rightarrow> d)
                    in if \<not> ok tokenRes then
                         (Inr (Send 500 ''OAuth callback failed: token exchange error''),
                          emit ERROR [LStr (cross_mark @ '' OAuth token exchange failed:''),
                                      LVal (Some data)] st3)
                       else
                         (case js_or (js_or (opt_prop (Some data) ''context'') (str context))
                                     (Some (JStr [])) of
                            Some (JStr ctx) \<Rightarrow>
                              (let storeHash = storeHash_B ctx;
                                   st4 = emit LOG [LStr (check_mark @ '' OAuth success. Store hash:''),
                                                   LStr storeHash] st3
                               in case get_prop data ''access_token'' of
                                    Inl err \<Rightarrow> (Inl err, st4)
                                  | Inr access_token \<Rightarrow>
                                      (Inr (Send 200 (installed_page_B storeHash)),
                                       emit LOG
                                         [LStr (key_sign
                                                @ '' Access token (do NOT log this in real prod):''),
                                          LVal access_token] st4))
                          | _ \<Rightarrow> (Inl TypeError, st3)))))"

definition api_auth_callback_B ::
  "env \<Rightarrow> network \<Rightarrow> request \<Rightarrow> server_state \<Rightarrow> http_response \<times> server_state" where
  "api_auth_callback_B e net req st =
     (case callback_try_B e net req st of
        (Inr res, st1) \<Rightarrow> (res, st1)
      | (Inl err, st1) \<Rightarrow>
          (Send 500 ''OAuth callback failed on server.'',
           emit ERROR [LStr (cross_mark @ '' OAuth callback failed:''), LErr err] st1))"

subsection \<open>\<^verbatim>\<open>POST /api/uninstall\<close> (lines 384 to 388)\<close>

definition api_uninstall_B :: "request \<Rightarrow> server_state \<Rightarrow> http_response \<times> server_state" where
  "api_uninstall_B req st =
     (SendJson 200 success_true,
      emit LOG [LStr (wastebasket_sign @ '' App uninstall called.'')] st)"

subsection \<open>\<^verbatim>\<open>POST /v1/shipping/connection\<close> (lines 394 to 402), \<^verbatim>\<open>POST /v1/shipping/rates\<close> (lines 408 to 434)\<close>

definition shipping_connection_B :: "request \<Rightarrow> server_state \<Rightarrow> http_response \<times> server_state" where
  "shipping_connection_B req st =
     (SendJson 200 connection_verified,
      emit LOG [LStr (link_sign @ '' /v1/shipping/connection hit. Body:''), LVal (req_body req)] st)"

definition rates_B :: json where
  "rates_B =
     JObj [(''data'', JArr
       [carrier_quote ''myrover_same_day_gta'' ''MyRover Same-Day Courier (GTA)'' (1995 / 100),
        carrier_quote ''myrover_standard_gta'' ''MyRover Next-Day Courier (GTA)'' (125 / 10)])]"

definition shipping_rates_B :: "request \<Rightarrow> server_state \<Rightarrow> http_response \<times> server_state" where
  "shipping_rates_B req st =
     (let body = js_or (req_body req) (Some (JObj []));
          st1 = emit LOG [LStr (package_sign @ '' /v1/shipping/rates request:''), LPretty body] st;
          response = rates_B;
          st2 = emit LOG [LStr (package_sign @ '' Returning dummy rates:''), LVal (Some response)] st1
      in (SendJson 200 response, st2))"

subsection \<open>The routes with a JSON body, behind the body parser\<close>


definition post_api_uninstall_B ::
  "request \<Rightarrow> json \<Rightarrow> server_state \<Rightarrow> http_response \<times> server_state" where
  "post_api_uninstall_B req doc st =
     (case express_json doc of
        Inl err \<Rightarrow> (finalhandler err, st)
      | Inr body \<Rightarrow> api_uninstall_B (req\<lparr>req_body := body\<rparr>) st)"

section \<open>Example inputs\<close>

text \<open>Concrete configurations, requests, states and networks, for the examples below.\<close>

definition example_env :: env where
  "example_env =
     \<lparr>CLIENT_ID = Some ''client123'', CLIENT_SECRET = Some ''secret456'',
      APP_URL = Some ''https://myrover-gta.onrender.com''\<rparr>"

definition unset_env :: env where
  "unset_env = \<lparr>CLIENT_ID = None, CLIENT_SECRET = None, APP_URL = None\<rparr>"

definition example_request :: request where
  "example_request =
     \<lparr>req_method = ''GET'', req_headers = [],
      req_query = [''code'' \<mapsto> ''c0de'', ''context'' \<mapsto> ''stores/abc123'',
                   ''scope'' \<mapsto> ''store_v2_orders''],
      req_body = None\<rparr>"

definition uninstall_request :: request where
  "uninstall_request =
     \<lparr>req_method = ''POST'', req_headers = [], req_query = Map.empty,
      req_body = Some (JObj [(''store_hash'', JStr ''abc123'')])\<rparr>"

definition json_post :: request where
  "json_post =
     \<lparr>req_method = ''POST'', req_headers = [(''content-type'', ''application/json'')],
      req_query = Map.empty, req_body = None\<rparr>"

definition unconvertible_store_hash :: json where
  "unconvertible_store_hash = JObj [(''store_hash'', JObj [(''toString'', JNum 1)])]"

definition empty_state :: server_state where
  "empty_state = \<lparr>storeTokens = Map.empty, console = []\<rparr>"

definition two_stores :: server_state where
  "two_stores =
     \<lparr>storeTokens = [''abc123'' \<mapsto> Some (JStr ''T''), ''other'' \<mapsto> Some (JStr ''U'')],
      console = []\<rparr>"

text \<open>Three networks: the exchange grants a token, the exchange refuses, the metadata API is down.\<close>

definition token_granted :: network where
  "token_granted rq =
     Resolved \<lparr>status = 200,
               json_body = Some (JObj [(''access_token'', JStr ''T''),
                                       (''context'', JStr ''stores/abc123'')])\<rparr>"

definition token_denied :: network where
  "token_denied rq =
     Resolved \<lparr>status = 400,
               json_body = Some (JObj [(''error'', JStr ''invalid_grant for secret456'')])\<rparr>"

definition metadata_down :: network where
  "metadata_down rq =
     (if url rq = ''https://login.bigcommerce.com/oauth2/token'' then token_granted rq
      else Resolved \<lparr>status = 500, json_body = None\<rparr>)"

section \<open>Properties\<close>

subsection \<open>The shipping endpoints\<close>




text \<open>
  C9. The connection test and the rate quote answer the same in any two states of the
  token map, and leave the token map as it was (they write to the console only).
\<close>

theorem C9_store_independent:
  "fst (shipping_connection_A req st) = fst (shipping_connection_A req st')
   \<and> fst (shipping_rates_A req st) = fst (shipping_rates_A req st')
   \<and> storeTokens (snd (shipping_connection_A req st)) = storeTokens st
   \<and> storeTokens (snd (shipping_rates_A req st)) = storeTokens st
   \<and> fst (shipping_connection_B req st) = fst (shipping_connection_B req st')
   \<and> fst (shipping_rates_B req st) = fst (shipping_rates_B req st')
   \<and> storeTokens (snd (shipping_connection_B req st)) = storeTokens st
   \<and> storeTokens (snd (shipping_rates_B req st)) = storeTokens st"
  by (simp add: shipping_connection_A_def shipping_rates_A_def shipping_connection_B_def
      shipping_rates_B_def emit_def Let_def)

subsection \<open>Uninstall\<close>

lemma map_delete_twice: "map_delete k (map_delete k m) = map_delete k m"
  by (simp add: map_delete_def split: option.split json.split)

lemma map_delete_other: "k \<noteq> Some (JStr y) \<Longrightarrow> map_delete k m y = m y"
  by (auto simp: map_delete_def split: option.split json.split)

lemma api_uninstall_A_answer:
  "fst (api_uninstall_A req st) =
     (if \<not> js_not (opt_prop (req_body req) ''store_hash'')
         \<and> ToString_throws (opt_prop (req_body req) ''store_hash'')
      then Inl TypeError else Inr (SendJson 200 (JObj [(''success'', JBool True)])))"
  by (simp add: api_uninstall_A_def success_true_def Let_def)

lemma api_uninstall_A_store:
  "storeTokens (snd (api_uninstall_A req st)) =
     (if js_not (opt_prop (req_body req) ''store_hash'') then storeTokens st
      else map_delete (opt_prop (req_body req) ''store_hash'') (storeTokens st))"
  by (simp add: api_uninstall_A_def emit_def Let_def)

lemma api_uninstall_A_idempotent:
  "fst (api_uninstall_A req (snd (api_uninstall_A req st))) = fst (api_uninstall_A req st)
   \<and> storeTokens (snd (api_uninstall_A req (snd (api_uninstall_A req st))))
       = storeTokens (snd (api_uninstall_A req st))"
  by (simp add: api_uninstall_A_answer api_uninstall_A_store map_delete_twice)

lemma api_uninstall_B_idempotent:
  "fst (api_uninstall_B req st) = SendJson 200 (JObj [(''success'', JBool True)])
   \<and> fst (api_uninstall_B req (snd (api_uninstall_B req st))) = fst (api_uninstall_B req st)
   \<and> storeTokens (snd (api_uninstall_B req (snd (api_uninstall_B req st))))
       = storeTokens (snd (api_uninstall_B req st))"
  by (simp add: api_uninstall_B_def success_true_def emit_def)

text \<open>
  C8 does not hold of variant A. The body \<^verbatim>\<open>{"store_hash": {"toString": 1}}\<close> passes the
  body parser, its \<^verbatim>\<open>store_hash\<close> is truthy and has no string conversion, so the
  template literal of line 220 throws and the answer is 500, not 200
  \<^verbatim>\<open>{success: true}\<close>; the token map is left as it was. Variant B answers the same
  request 200 \<^verbatim>\<open>{success: true}\<close>.
\<close>

theorem C8_uninstall_throws:
  "express_json unconvertible_store_hash = Inr (Some unconvertible_store_hash)
   \<and> fst (api_uninstall_A (json_post\<lparr>req_body := Some unconvertible_store_hash\<rparr>) two_stores)
       = Inl TypeError
   \<and> fst (post_api_uninstall_A json_post unconvertible_store_hash two_stores) = ErrorPage 500
   \<and> storeTokens (snd (post_api_uninstall_A json_post unconvertible_store_hash two_stores))
       = storeTokens two_stores
   \<and> fst (post_api_uninstall_B json_post unconvertible_store_hash two_stores)
       = SendJson 200 (JObj [(''success'', JBool True)])"
  by (simp add: post_api_uninstall_A_def post_api_uninstall_B_def api_uninstall_A_def
      api_uninstall_B_def express_json_def finalhandler_def unconvertible_store_hash_def
      ToString_throws_def map_delete_def success_true_def Let_def)

text \<open>
  C10. After \<^verbatim>\<open>POST /api/uninstall\<close>, the token stored for \<open>y\<close> is what it was before,
  for every \<open>y\<close> other than the request's \<^verbatim>\<open>store_hash\<close> (in particular when
  \<^verbatim>\<open>store_hash\<close> is a string \<open>x\<close> and \<open>y \<noteq> x\<close>).
\<close>

theorem C10_uninstall_frame:
  "opt_prop (req_body req) ''store_hash'' \<noteq> Some (JStr y)
   \<Longrightarrow> storeTokens (snd (api_uninstall_A req st)) y = storeTokens st y"
  by (simp add: api_uninstall_A_store map_delete_other)

theorem C10_uninstall_frame_witness:
  "opt_prop (req_body uninstall_request) ''store_hash'' = Some (JStr ''abc123'')
   \<and> opt_prop (req_body uninstall_request) ''store_hash'' \<noteq> Some (JStr ''other'')
   \<and> storeTokens (snd (api_uninstall_A uninstall_request two_stores)) ''other''
       = Some (Some (JStr ''U''))
   \<and> storeTokens (snd (api_uninstall_A uninstall_request two_stores)) ''abc123'' = None"
proof -
  have h: "opt_prop (req_body uninstall_request) ''store_hash'' \<noteq> Some (JStr ''other'')"
    by (simp add: uninstall_request_def)
  have "storeTokens (snd (api_uninstall_A uninstall_request two_stores)) ''abc123'' = None"
    by (simp add: api_uninstall_A_store uninstall_request_def two_stores_def map_delete_def)
  with h C10_uninstall_frame [OF h, of two_stores] show ?thesis
    by (simp add: uninstall_request_def two_stores_def)
qed

subsection \<open>The store identifier\<close>

lemmas trim_eval = trim_def trimStart_def trimEnd_def white_space_def strip_leading.simps

lemma js_replace_absent: "\<not> sublist pat s \<Longrightarrow> js_replace pat rep s = s"
proof (induction s)
  case Nil
  then show ?case by (cases pat) simp_all
next
  case (Cons c cs)
  from Cons.prems have np: "\<not> prefix pat (c # cs)"
    using prefix_imp_sublist [of pat "c # cs"] by auto
  from Cons.prems have "\<not> sublist pat cs"
    by (simp add: sublist_Cons_right)
  with Cons.IH np show ?case by simp
qed

lemma prefix_shorter:
  assumes "prefix pat (q @ t)" and "length pat \<le> length q"
  shows "prefix pat q"
proof -
  from assms(1) obtain zs where "q @ t = pat @ zs"
    by (auto simp: prefix_def)
  then have "take (length pat) (q @ t) = pat"
    by simp
  with assms(2) have "take (length pat) q = pat"
    by simp
  then show ?thesis
    by (metis take_is_prefix)
qed

lemma js_replace_prefix: "js_replace pat rep (pat @ r) = rep @ r"
proof (cases "pat @ r")
  case Nil
  then show ?thesis by simp
next
  case (Cons a list)
  have "prefix pat (a # list)"
    unfolding Cons [symmetric] by simp
  then have "js_replace pat rep (a # list) = rep @ drop (length pat) (a # list)"
    by simp
  then show ?thesis
    unfolding Cons [symmetric] by simp
qed

lemma js_replace_first:
  "\<not> sublist pat (p @ butlast pat) \<Longrightarrow> js_replace pat rep (p @ pat @ r) = p @ rep @ r"
proof (induction p)
  case Nil
  then show ?case by (simp add: js_replace_prefix)
next
  case (Cons c p)
  have np: "\<not> prefix pat (c # p @ pat @ r)"
  proof
    assume pr: "prefix pat (c # p @ pat @ r)"
    show False
    proof (cases "pat = []")
      case True
      with Cons.prems show False by simp
    next
      case False
      then have eq: "butlast pat @ [last pat] = pat" by simp
      have "((c # p) @ butlast pat) @ (last pat # r) = c # p @ (butlast pat @ [last pat]) @ r"
        by simp
      also have "\<dots> = c # p @ pat @ r"
        by (simp only: eq)
      finally have split: "((c # p) @ butlast pat) @ (last pat # r) = c # p @ pat @ r" .
      from pr have "prefix pat (((c # p) @ butlast pat) @ (last pat # r))"
        by (simp only: split)
      moreover have "length pat \<le> length ((c # p) @ butlast pat)" by simp
      ultimately have "prefix pat ((c # p) @ butlast pat)"
        by (rule prefix_shorter)
      then have "sublist pat ((c # p) @ butlast pat)"
        by (rule prefix_imp_sublist)
      with Cons.prems show False by simp
    qed
  qed
  from Cons.prems have "\<not> sublist pat (p @ butlast pat)"
    by (simp add: sublist_Cons_right)
  with Cons.IH np show ?case by simp
qed

lemma storeHash_A_absent: "\<not> sublist ''stores/'' c \<Longrightarrow> storeHash_A c = c"
  unfolding storeHash_A_def by (rule js_replace_absent)

lemma storeHash_A_prefix: "storeHash_A (''stores/'' @ r) = r"
  unfolding storeHash_A_def by (subst js_replace_prefix) simp

lemma storeHash_A_first:
  assumes "\<not> sublist ''stores/'' (p @ ''stores'')"
  shows "storeHash_A (p @ ''stores/'' @ r) = p @ r"
proof -
  have "butlast ''stores/'' = ''stores''"
    by simp
  with assms have "\<not> sublist ''stores/'' (p @ butlast ''stores/'')"
    by simp
  then have "js_replace ''stores/'' [] (p @ ''stores/'' @ r) = p @ [] @ r"
    by (rule js_replace_first)
  then show ?thesis
    by (simp add: storeHash_A_def)
qed

text \<open>
  C3 (as amended). The store identifier is the context with the first occurrence of the
  exact text \<^verbatim>\<open>stores/\<close> removed, wherever in the context it occurs. So a context
  in which \<^verbatim>\<open>stores/\<close> does not occur at all passes through unchanged, a context that
  begins with \<^verbatim>\<open>stores/\<close> loses exactly that prefix, and a context in which it first
  occurs after \<open>before\<close> loses it there. Variant B trims the result at both ends.
\<close>

theorem C3_first_occurrence_removed:
  "(\<not> sublist ''stores/'' context \<longrightarrow> storeHash_A context = context)
   \<and> storeHash_A (''stores/'' @ rest) = rest
   \<and> (\<not> sublist ''stores/'' (before @ ''stores'')
        \<longrightarrow> storeHash_A (before @ ''stores/'' @ rest) = before @ rest)
   \<and> storeHash_B context = trim (storeHash_A context)"
proof (intro conjI impI)
  show "storeHash_B context = trim (storeHash_A context)"
    by (simp add: storeHash_A_def storeHash_B_def)
qed (fact storeHash_A_absent storeHash_A_prefix storeHash_A_first)+

theorem C3_first_occurrence_removed_witness:
  "\<not> sublist ''stores/'' ''Stores/abc'' \<and> storeHash_A ''Stores/abc'' = ''Stores/abc''
   \<and> storeHash_A ''stores/abc123'' = ''abc123''
   \<and> \<not> sublist ''stores/'' ''my-stores'' \<and> storeHash_A ''my-stores/abc123'' = ''my-abc123''
   \<and> storeHash_B ''Stores/abc'' = ''Stores/abc''"
proof -
  have h1: "\<not> sublist ''stores/'' ''Stores/abc''"
    by (simp add: sublist_code)
  have h2: "\<not> sublist ''stores/'' (''my-'' @ ''stores'')"
    by (simp add: sublist_code)
  have t: "trim ''Stores/abc'' = ''Stores/abc''"
    by (simp add: trim_eval)
  from C3_first_occurrence_removed
    [of "''Stores/abc''" "''abc123''" "''my-''"] h1 h2
  have "storeHash_A ''Stores/abc'' = ''Stores/abc''"
    and "storeHash_A (''stores/'' @ ''abc123'') = ''abc123''"
    and "storeHash_A (''my-'' @ ''stores/'' @ ''abc123'') = ''my-'' @ ''abc123''"
    and "storeHash_B ''Stores/abc'' = trim (storeHash_A ''Stores/abc'')"
    by blast+
  with h1 h2 t show ?thesis
    by simp
qed

text \<open>
  C3 as stated fails: \<^verbatim>\<open>my-stores/abc\<close> does not begin with \<^verbatim>\<open>stores/\<close>, yet its
  identifier is \<^verbatim>\<open>my-abc\<close> in both variants; and in variant B the context
  \<^verbatim>\<open>stores/ abc\<close> gives \<^verbatim>\<open>abc\<close>, not the context less its prefix.
\<close>

theorem C3_prefix_strip_counterexample:
  "\<not> prefix ''stores/'' ''my-stores/abc'' \<and> storeHash_A ''my-stores/abc'' = ''my-abc''
   \<and> storeHash_A ''my-stores/abc'' \<noteq> ''my-stores/abc''
   \<and> storeHash_B ''my-stores/abc'' = ''my-abc''
   \<and> storeHash_B (''stores/'' @ '' abc'') = ''abc'' \<and> ''abc'' \<noteq> '' abc''"
proof -
  have "trim ''my-abc'' = ''my-abc''" and "trim '' abc'' = ''abc''"
    by (simp_all add: trim_eval)
  then show ?thesis
    by (simp add: storeHash_A_def storeHash_B_def)
qed

subsection \<open>Install\<close>

text \<open>
  C7. With the client identifier and the base URL configured and non-empty \<^verbatim>\<open>context\<close>
  and \<^verbatim>\<open>scope\<close> parameters, \<^verbatim>\<open>GET /api/install\<close> redirects (302) to the authorize
  endpoint with the client identifier, the URL-encoded scope, the URL-encoded context, the
  URL-encoded callback URL (base URL followed by \<^verbatim>\<open>/api/auth/callback\<close>) and
  \<^verbatim>\<open>response_type=code\<close>. Variant B URL-encodes the client identifier too and orders
  the parameters differently.
\<close>

theorem C7_install_redirect:
  assumes "CLIENT_ID e = Some client_id" and "client_id \<noteq> []"
    and "APP_URL e = Some app_url" and "app_url \<noteq> []"
    and "req_query req ''context'' = Some context" and "context \<noteq> []"
    and "req_query req ''scope'' = Some scope" and "scope \<noteq> []"
  shows "fst (api_install_A e req st) =
           Redirect 302
             (''https://login.bigcommerce.com/oauth2/authorize?client_id='' @ client_id
              @ ''&scope='' @ encodeURIComponent scope
              @ ''&redirect_uri='' @ encodeURIComponent (app_url @ ''/api/auth/callback'')
              @ ''&response_type=code&context='' @ encodeURIComponent context)
         \<and> fst (api_install_B e req st) =
           Redirect 302
             (''https://login.bigcommerce.com/oauth2/authorize?client_id=''
              @ encodeURIComponent client_id
              @ ''&scope='' @ encodeURIComponent scope
              @ ''&context='' @ encodeURIComponent context
              @ ''&redirect_uri='' @ encodeURIComponent (app_url @ ''/api/auth/callback'')
              @ ''&response_type=code'')"
  using assms
  by (simp add: api_install_A_def api_install_B_def authUrl_A_def authorizeUrl_B_def
      str_def to_string_def Let_def)

theorem C7_install_redirect_witness:
  "fst (api_install_A example_env example_request empty_state) =
     Redirect 302 ''https://login.bigcommerce.com/oauth2/authorize?client_id=client123&scope=store_v2_orders&redirect_uri=https%3A%2F%2Fmyrover-gta.onrender.com%2Fapi%2Fauth%2Fcallback&response_type=code&context=stores%2Fabc123''
   \<and> fst (api_install_B example_env example_request empty_state) =
     Redirect 302 ''https://login.bigcommerce.com/oauth2/authorize?client_id=client123&scope=store_v2_orders&context=stores%2Fabc123&redirect_uri=https%3A%2F%2Fmyrover-gta.onrender.com%2Fapi%2Fauth%2Fcallback&response_type=code''"
  using C7_install_redirect [of example_env "''client123''" "''https://myrover-gta.onrender.com''"
      example_request "''stores/abc123''" "''store_v2_orders''" empty_state]
  by (simp add: example_env_def example_request_def
      encodeURIComponent_def uri_unreserved_def pct_encode_def hex_digit_def)

lemma api_install_A_unconfigured:
  "CLIENT_ID e = None \<or> CLIENT_ID e = Some [] \<or> APP_URL e = None \<or> APP_URL e = Some []
   \<Longrightarrow> fst (api_install_A e req st)
         = Send 500 ''Server not configured correctly (CLIENT_ID / APP_URL missing).''"
  by (auto simp: api_install_A_def str_def Let_def)

text \<open>
  C6 does not hold of variant B. Variant A answers 500 whenever the client identifier or
  the base URL is unset or empty (the lemma above); variant B's handler has no such guard,
  and with nothing configured it redirects, the text \<^verbatim>\<open>undefined\<close> standing for the
  client identifier and the base URL.
\<close>

theorem C6_variant_B_redirects_unconfigured:
  "CLIENT_ID unset_env = None \<and> APP_URL unset_env = None
   \<and> fst (api_install_B unset_env example_request empty_state)
       = Redirect 302 ''https://login.bigcommerce.com/oauth2/authorize?client_id=undefined&scope=store_v2_orders&context=stores%2Fabc123&redirect_uri=undefined%2Fapi%2Fauth%2Fcallback&response_type=code''"
  by (simp add: api_install_B_def authorizeUrl_B_def unset_env_def example_request_def
      str_def to_string_def Let_def
      encodeURIComponent_def uri_unreserved_def pct_encode_def hex_digit_def)

subsection \<open>The OAuth callback\<close>

lemma registerMetadata_resolved:
  assumes "net (metadata_request storeHash accessToken) = Resolved res"
  shows "fst (registerMetadata net storeHash accessToken st) = Inr ()"
    and "storeTokens (snd (registerMetadata net storeHash accessToken st)) = storeTokens st"
    and "\<not> ok res \<Longrightarrow>
         (ERROR, [LStr (cross_mark @ '' Metadata registration failed:''), LNum (status res),
                  LVal (Some (case json_body res of None \<Rightarrow> JNull | Some d \<Rightarrow> d))])
           \<in> set (console (snd (registerMetadata net storeHash accessToken st)))"
    and "json_body res = None \<Longrightarrow>
         (WARN, [LStr (warning_sign @ '' Could not parse metadata response JSON'')])
           \<in> set (console (snd (registerMetadata net storeHash accessToken st)))"
  using assms
  by (simp_all add: registerMetadata_def emit_def Let_def split: option.split)

lemma callback_try_A_granted:
  assumes "req_query req ''code'' = Some code" and "code \<noteq> []"
    and "req_query req ''context'' = Some context" and "context \<noteq> []"
    and "net (token_request e req) = Resolved tokenRes" and "ok tokenRes"
    and "json_body tokenRes = Some data"
    and "get_prop data ''access_token'' = Inr accessToken"
  shows "callback_try_A e net req st =
           (case registerMetadata net (storeHash_A context) accessToken
                   (emit LOG [LTemplate [LStr (check_mark @ '' Access token stored for store: ''),
                                          LStr (storeHash_A context)]]
                      (st\<lparr>storeTokens := (storeTokens st)(storeHash_A context \<mapsto> accessToken)\<rparr>)) of
              (Inl err, st3) \<Rightarrow> (Inl err, st3)
            | (Inr u, st3) \<Rightarrow> (Inr (Send 200 installed_page_A), st3))"
  using assms
  by (simp add: callback_try_A_def str_def Let_def)

lemma registerMetadata_store:
  "storeTokens (snd (registerMetadata net storeHash accessToken st)) = storeTokens st"
  by (simp add: registerMetadata_def emit_def Let_def split: fetch_result.split option.split)

lemma callback_B_store:
  "storeTokens (snd (api_auth_callback_B e net req st)) = storeTokens st"
  by (simp add: api_auth_callback_B_def callback_try_B_def emit_def Let_def
      split: fetch_result.split option.split sum.split json.split)

lemma storeHash_A_example: "storeHash_A ''stores/abc123'' = ''abc123''"
  by (simp add: storeHash_A_def)

lemma storeHash_B_example: "storeHash_B ''stores/abc123'' = ''abc123''"
proof -
  have "trim ''abc123'' = ''abc123''"
    by (simp add: trim_eval)
  then show ?thesis
    by (simp add: storeHash_B_def)
qed

text \<open>
  C4. When the code and the context are present and the token exchange answers with a
  status outside 200 to 299, the callback answers with a fixed page: 400 and
  \<^verbatim>\<open>OAuth callback failed. Check server logs for more details.\<close> in variant A, 500 and
  \<^verbatim>\<open>OAuth callback failed: token exchange error\<close> in variant B. The page is the same
  for every configuration, request and upstream answer, so it carries no token, no client
  secret and no upstream error text; and the token map is left as it was.
\<close>

theorem C4_exchange_failure_generic:
  assumes "req_query req ''code'' = Some code" and "code \<noteq> []"
    and "req_query req ''context'' = Some context" and "context \<noteq> []"
    and "net (token_request e req) = Resolved tokenRes" and "\<not> ok tokenRes"
  shows "fst (api_auth_callback_A e net req st)
           = Send 400 ''OAuth callback failed. Check server logs for more details.''
         \<and> storeTokens (snd (api_auth_callback_A e net req st)) = storeTokens st
         \<and> fst (api_auth_callback_B e net req st)
           = Send 500 ''OAuth callback failed: token exchange error''
         \<and> storeTokens (snd (api_auth_callback_B e net req st)) = storeTokens st"
  using assms
  by (simp add: api_auth_callback_A_def callback_try_A_def api_auth_callback_B_def
      callback_try_B_def failed_page_A_def str_def emit_def Let_def
      split: option.split sum.split)

theorem C4_exchange_failure_generic_witness:
  "req_query example_request ''code'' = Some ''c0de''
   \<and> req_query example_request ''context'' = Some ''stores/abc123''
   \<and> token_denied (token_request example_env example_request)
       = Resolved \<lparr>status = 400,
           json_body = Some (JObj [(''error'', JStr ''invalid_grant for secret456'')])\<rparr>
   \<and> fst (api_auth_callback_A example_env token_denied example_request two_stores)
       = Send 400 ''OAuth callback failed. Check server logs for more details.''
   \<and> storeTokens (snd (api_auth_callback_A example_env token_denied example_request two_stores))
       = storeTokens two_stores
   \<and> fst (api_auth_callback_B example_env token_denied example_request two_stores)
       = Send 500 ''OAuth callback failed: token exchange error''
   \<and> storeTokens (snd (api_auth_callback_B example_env token_denied example_request two_stores))
       = storeTokens two_stores"
proof -
  have q: "req_query example_request ''code'' = Some ''c0de''"
    "req_query example_request ''context'' = Some ''stores/abc123''"
    by (simp_all add: example_request_def)
  have r: "token_denied (token_request example_env example_request)
      = Resolved \<lparr>status = 400,
          json_body = Some (JObj [(''error'', JStr ''invalid_grant for secret456'')])\<rparr>"
    by (simp add: token_denied_def)
  have n: "\<not> ok \<lparr>status = 400,
      json_body = Some (JObj [(''error'', JStr ''invalid_grant for secret456'')])\<rparr>"
    by (simp add: ok_def)
  from C4_exchange_failure_generic [of example_request "''c0de''" "''stores/abc123''"
      token_denied example_env
      "\<lparr>status = 400,
        json_body = Some (JObj [(''error'', JStr ''invalid_grant for secret456'')])\<rparr>"
      two_stores] q r n
  show ?thesis
    by simp
qed

text \<open>
  C5. In variant A, after a successful token exchange (a 2xx answer whose JSON body is not
  \<^verbatim>\<open>null\<close>), a metadata call answered with a status outside 200 to 299, or with a
  body that is not JSON, is written to the console (an error entry, a warning entry) and
  the callback still answers 200 with the confirmation page.
\<close>

theorem C5_metadata_failure_swallowed:
  assumes "req_query req ''code'' = Some code" and "code \<noteq> []"
    and "req_query req ''context'' = Some context" and "context \<noteq> []"
    and "net (token_request e req) = Resolved tokenRes" and "ok tokenRes"
    and "json_body tokenRes = Some data"
    and "get_prop data ''access_token'' = Inr accessToken"
    and "net (metadata_request (storeHash_A context) accessToken) = Resolved res"
    and "\<not> ok res \<or> json_body res = None"
  shows "fst (api_auth_callback_A e net req st)
           = Send 200 (nl @ ''      <h2>'' @ check_mark
               @ '' MyRover GTA Carrier installed successfully</h2>''
               @ nl @ ''      <p>You can close this window and return to your BigCommerce admin.</p>''
               @ nl @ ''    '')
         \<and> (\<not> ok res \<longrightarrow>
               (ERROR, [LStr (cross_mark @ '' Metadata registration failed:''), LNum (status res),
                        LVal (Some (case json_body res of None \<Rightarrow> JNull | Some d \<Rightarrow> d))])
                 \<in> set (console (snd (api_auth_callback_A e net req st))))
         \<and> (json_body res = None \<longrightarrow>
               (WARN, [LStr (warning_sign @ '' Could not parse metadata response JSON'')])
                 \<in> set (console (snd (api_auth_callback_A e net req st))))"
proof -
  let ?st2 = "emit LOG [LTemplate [LStr (check_mark @ '' Access token stored for store: ''),
                                    LStr (storeHash_A context)]]
                (st\<lparr>storeTokens := (storeTokens st)(storeHash_A context \<mapsto> accessToken)\<rparr>)"
  let ?reg = "registerMetadata net (storeHash_A context) accessToken ?st2"
  have body: "callback_try_A e net req st =
      (case ?reg of (Inl err, st3) \<Rightarrow> (Inl err, st3)
                  | (Inr u, st3) \<Rightarrow> (Inr (Send 200 installed_page_A), st3))"
    using assms(1-8) by (rule callback_try_A_granted)
  have reg: "fst ?reg = Inr ()"
    using assms(9) by (rule registerMetadata_resolved(1))
  then obtain st3 where st3: "?reg = (Inr (), st3)"
    by (cases ?reg) simp
  have cb: "api_auth_callback_A e net req st = (Send 200 installed_page_A, st3)"
    by (simp add: api_auth_callback_A_def body st3)
  have st3_eq: "st3 = snd ?reg"
    by (simp add: st3)
  have "\<not> ok res \<Longrightarrow>
      (ERROR, [LStr (cross_mark @ '' Metadata registration failed:''), LNum (status res),
               LVal (Some (case json_body res of None \<Rightarrow> JNull | Some d \<Rightarrow> d))])
        \<in> set (console st3)"
    unfolding st3_eq using assms(9) by (rule registerMetadata_resolved(3))
  moreover have "json_body res = None \<Longrightarrow>
      (WARN, [LStr (warning_sign @ '' Could not parse metadata response JSON'')])
        \<in> set (console st3)"
    unfolding st3_eq using assms(9) by (rule registerMetadata_resolved(4))
  ultimately show ?thesis
    by (simp add: cb installed_page_A_def)
qed

theorem C5_metadata_failure_swallowed_witness:
  "metadata_down (token_request example_env example_request)
     = Resolved \<lparr>status = 200,
         json_body = Some (JObj [(''access_token'', JStr ''T''),
                                 (''context'', JStr ''stores/abc123'')])\<rparr>
   \<and> metadata_down (metadata_request ''abc123'' (Some (JStr ''T'')))
     = Resolved \<lparr>status = 500, json_body = None\<rparr>
   \<and> fst (api_auth_callback_A example_env metadata_down example_request empty_state)
     = Send 200 (nl @ ''      <h2>'' @ check_mark
         @ '' MyRover GTA Carrier installed successfully</h2>''
         @ nl @ ''      <p>You can close this window and return to your BigCommerce admin.</p>''
         @ nl @ ''    '')
   \<and> (ERROR, [LStr (cross_mark @ '' Metadata registration failed:''), LNum 500,
              LVal (Some JNull)])
       \<in> set (console (snd (api_auth_callback_A example_env metadata_down example_request
                                empty_state)))
   \<and> (WARN, [LStr (warning_sign @ '' Could not parse metadata response JSON'')])
       \<in> set (console (snd (api_auth_callback_A example_env metadata_down example_request
                                empty_state)))"
proof -
  have q: "req_query example_request ''code'' = Some ''c0de''"
    "req_query example_request ''context'' = Some ''stores/abc123''"
    by (simp_all add: example_request_def)
  have t: "metadata_down (token_request example_env example_request)
      = Resolved \<lparr>status = 200,
          json_body = Some (JObj [(''access_token'', JStr ''T''),
                                  (''context'', JStr ''stores/abc123'')])\<rparr>"
    by (simp add: metadata_down_def token_granted_def token_request_def)
  have m: "metadata_down (metadata_request ''abc123'' (Some (JStr ''T'')))
      = Resolved \<lparr>status = 500, json_body = None\<rparr>"
    by (simp add: metadata_down_def metadata_request_def)
  have o: "ok \<lparr>status = 200,
      json_body = Some (JObj [(''access_token'', JStr ''T''),
                              (''context'', JStr ''stores/abc123'')])\<rparr>"
    "\<not> ok \<lparr>status = 500, json_body = None\<rparr>"
    by (simp_all add: ok_def)
  from C5_metadata_failure_swallowed [of example_request "''c0de''" "''stores/abc123''"
      metadata_down example_env
      "\<lparr>status = 200,
        json_body = Some (JObj [(''access_token'', JStr ''T''),
                                (''context'', JStr ''stores/abc123'')])\<rparr>"
      "JObj [(''access_token'', JStr ''T''), (''context'', JStr ''stores/abc123'')]"
      "Some (JStr ''T'')" "\<lparr>status = 500, json_body = None\<rparr>" empty_state]
    q t m o
  show ?thesis
    by (simp add: storeHash_A_example)
qed

text \<open>
  C2 (as amended). In variant A, for a callback with a non-empty code and the context
  \<^verbatim>\<open>stores/abc123\<close>, when the token exchange succeeds with the access token \<open>T\<close>,
  the token map holds \<open>T\<close> under \<^verbatim>\<open>abc123\<close> afterwards, and the confirmation page
  is returned whenever the metadata call gets an answer. Variant B has no token map and
  stores nothing.
\<close>

theorem C2_credential_persisted:
  assumes "req_query req ''code'' = Some code" and "code \<noteq> []"
    and "req_query req ''context'' = Some ''stores/abc123''"
    and "net (token_request e req) = Resolved tokenRes" and "ok tokenRes"
    and "json_body tokenRes = Some data"
    and "get_prop data ''access_token'' = Inr (Some (JStr T))"
  shows "storeTokens (snd (api_auth_callback_A e net req st)) ''abc123'' = Some (Some (JStr T))
         \<and> (\<forall>res. net (metadata_request ''abc123'' (Some (JStr T))) = Resolved res
                \<longrightarrow> fst (api_auth_callback_A e net req st) = Send 200 installed_page_A)
         \<and> storeTokens (snd (api_auth_callback_B e net req st)) = storeTokens st"
proof -
  let ?st2 = "emit LOG [LTemplate [LStr (check_mark @ '' Access token stored for store: ''),
                                    LStr ''abc123'']]
                (st\<lparr>storeTokens := (storeTokens st)(''abc123'' \<mapsto> Some (JStr T))\<rparr>)"
  let ?reg = "registerMetadata net ''abc123'' (Some (JStr T)) ?st2"
  have body: "callback_try_A e net req st =
      (case ?reg of (Inl err, st3) \<Rightarrow> (Inl err, st3)
                  | (Inr u, st3) \<Rightarrow> (Inr (Send 200 installed_page_A), st3))"
    using assms callback_try_A_granted [of req code "''stores/abc123''" net e tokenRes data
        "Some (JStr T)" st]
    by (simp add: storeHash_A_example)
  have kept: "storeTokens (snd ?reg) = storeTokens ?st2"
    by (rule registerMetadata_store)
  have "storeTokens (snd (api_auth_callback_A e net req st)) = storeTokens (snd ?reg)"
    by (cases ?reg) (auto simp: api_auth_callback_A_def body emit_def split: sum.split)
  with kept have stored:
    "storeTokens (snd (api_auth_callback_A e net req st)) ''abc123'' = Some (Some (JStr T))"
    by (simp add: emit_def)
  have page: "fst (api_auth_callback_A e net req st) = Send 200 installed_page_A"
    if "net (metadata_request ''abc123'' (Some (JStr T))) = Resolved res" for res
  proof -
    from that have "fst ?reg = Inr ()"
      by (rule registerMetadata_resolved(1))
    then show ?thesis
      by (cases ?reg) (simp add: api_auth_callback_A_def body)
  qed
  from stored page callback_B_store show ?thesis
    by simp
qed

theorem C2_credential_persisted_witness:
  "req_query example_request ''context'' = Some ''stores/abc123''
   \<and> storeTokens (snd (api_auth_callback_A example_env token_granted example_request empty_state))
         ''abc123'' = Some (Some (JStr ''T''))
   \<and> fst (api_auth_callback_A example_env token_granted example_request empty_state)
       = Send 200 installed_page_A
   \<and> storeTokens (snd (api_auth_callback_B example_env token_granted example_request empty_state))
       = storeTokens empty_state"
proof -
  have q: "req_query example_request ''code'' = Some ''c0de''"
    "req_query example_request ''context'' = Some ''stores/abc123''"
    by (simp_all add: example_request_def)
  have t: "token_granted (token_request example_env example_request)
      = Resolved \<lparr>status = 200,
          json_body = Some (JObj [(''access_token'', JStr ''T''),
                                  (''context'', JStr ''stores/abc123'')])\<rparr>"
    "token_granted (metadata_request ''abc123'' (Some (JStr ''T'')))
      = Resolved \<lparr>status = 200,
          json_body = Some (JObj [(''access_token'', JStr ''T''),
                                  (''context'', JStr ''stores/abc123'')])\<rparr>"
    by (simp_all add: token_granted_def)
  have o: "ok \<lparr>status = 200,
      json_body = Some (JObj [(''access_token'', JStr ''T''),
                              (''context'', JStr ''stores/abc123'')])\<rparr>"
    by (simp add: ok_def)
  from C2_credential_persisted [of example_request "''c0de''" token_granted example_env
      "\<lparr>status = 200,
        json_body = Some (JObj [(''access_token'', JStr ''T''),
                                (''context'', JStr ''stores/abc123'')])\<rparr>"
      "JObj [(''access_token'', JStr ''T''), (''context'', JStr ''stores/abc123'')]"
      "''T''" empty_state]
    q t o
  show ?thesis
    by simp
qed

text \<open>
  C2 as stated fails on variant B: after the same successful exchange it confirms the
  installation of \<^verbatim>\<open>abc123\<close> and no token is stored under \<^verbatim>\<open>abc123\<close>.
\<close>

theorem C2_variant_B_counterexample:
  "req_query example_request ''code'' = Some ''c0de''
   \<and> req_query example_request ''context'' = Some ''stores/abc123''
   \<and> token_granted (token_request example_env example_request)
       = Resolved \<lparr>status = 200,
           json_body = Some (JObj [(''access_token'', JStr ''T''),
                                   (''context'', JStr ''stores/abc123'')])\<rparr>
   \<and> fst (api_auth_callback_B example_env token_granted example_request empty_state)
       = Send 200 (installed_page_B ''abc123'')
   \<and> storeTokens (snd (api_auth_callback_B example_env token_granted example_request empty_state))
         ''abc123'' = None"
proof -
  have "fst (api_auth_callback_B example_env token_granted example_request empty_state)
      = Send 200 (installed_page_B ''abc123'')"
    by (simp add: api_auth_callback_B_def callback_try_B_def token_granted_def
        example_request_def ok_def str_def js_or_def Let_def storeHash_B_example)
  moreover have "storeTokens (snd (api_auth_callback_B example_env token_granted example_request
      empty_state)) ''abc123'' = None"
    by (simp add: callback_B_store empty_state_def)
  ultimately show ?thesis
    by (simp add: example_request_def token_granted_def)
qed

end
